theory Spec2Isabelle
  imports Main "HOL-Library.AList"
begin

section \<open>Externally defined enumerations\<close>

text \<open>
  The scripts import \<open>StatusMajor\<close>, \<open>StatusMinor\<close> and \<open>SessionManagerEventType\<close>
  from the \<open>openvpn3\<close> module. Each datatype lists the members the two scripts name;
  the last constructor stands for every other member of the enumeration.
\<close>

datatype StatusMajor = SESSION | CONNECTION | MajorOther nat

datatype StatusMinor =
    SESS_AUTH_URL
  | CONN_CONNECTED
  | CONN_RECONNECTING
  | CONN_DISCONNECTED
  | CONN_AUTH_FAILED
  | CONN_FAILED
  | PROC_STOPPED
  | MinorOther nat

datatype SessionManagerEventType = SESS_CREATED | SESS_DESTROYED | EventOther nat

section \<open>The desktop notification service\<close>

text \<open>
  \<open>org.freedesktop.Notifications\<close> is an external service. Its state is the list of
  method calls it has received, in order, and the identifier it hands out for the next
  \<open>Notify\<close> call. \<open>SvcNotify\<close> keeps the arguments the script passes: application name,
  replaces-id, icon, title, body and timeout (the actions and hints are always empty).
\<close>

datatype svc_call =
    SvcNotify string nat string string string nat
  | SvcCloseNotification nat

record NotificationService =
  calls :: "svc_call list"
  next_id :: nat

definition notify_method ::
  "string \<Rightarrow> nat \<Rightarrow> string \<Rightarrow> string \<Rightarrow> string \<Rightarrow> nat \<Rightarrow> NotificationService
     \<Rightarrow> nat \<times> NotificationService" where
  "notify_method app replaces icon title msg timeout svc =
     (next_id svc,
      svc\<lparr>calls := calls svc @ [SvcNotify app replaces icon title msg timeout],
          next_id := Suc (next_id svc)\<rparr>)"

definition close_notify_method :: "nat \<Rightarrow> NotificationService \<Rightarrow> NotificationService" where
  "close_notify_method nid svc = svc\<lparr>calls := calls svc @ [SvcCloseNotification nid]\<rparr>"

section \<open>class Notify\<close>

text \<open>
  A Python \<open>dict\<close> is an association list: \<open>d[k] = v\<close> is \<open>AList.update\<close> (replace in
  place or append), \<open>k in d\<close> and \<open>d[k]\<close> are \<open>map_of\<close>, \<open>d.pop(k)\<close> is \<open>AList.delete\<close>.
  The values of the two notification dictionaries are what \<open>__notify\<close> returned:
  Python's \<open>None\<close> or a notification id. \<open>DEBUG\<close> only writes to the console when
  \<open>OPENVPN3_DEBUG\<close> is set and is left out.
\<close>

record Notify =
  service :: NotificationService
  auth_notif :: "(string \<times> nat option) list"
  reconn_notif :: "(string \<times> nat option) list"

definition Notify_init :: "NotificationService \<Rightarrow> Notify" where
  "Notify_init svc = \<lparr>service = svc, auth_notif = [], reconn_notif = []\<rparr>"

text \<open>
  \<open>__notify\<close> binds the id the service returns to the local \<open>nid\<close>, logs it, and ends
  without a \<open>return\<close> statement: the caller receives \<open>None\<close>.
\<close>

definition notify_priv :: "string \<Rightarrow> string \<Rightarrow> Notify \<Rightarrow> nat option \<times> Notify" where
  "notify_priv title msg self =
     (let (nid, svc) = notify_method ''OpenVPN 3 Linux'' 0 ''network'' title msg 0 (service self)
      in (None, self\<lparr>service := svc\<rparr>))"

definition close_notify_priv :: "nat option \<Rightarrow> Notify \<Rightarrow> Notify" where
  "close_notify_priv nid self =
     (case nid of
        None \<Rightarrow> self
      | Some i \<Rightarrow> self\<lparr>service := close_notify_method i (service self)\<rparr>)"

definition CloseNotification :: "string \<Rightarrow> string \<Rightarrow> Notify \<Rightarrow> Notify" where
  "CloseNotification grp path self =
     (if ''auth'' = grp then
        (case map_of (auth_notif self) path of
           Some nid \<Rightarrow> close_notify_priv nid self
         | None \<Rightarrow> self)
      else if ''reconnect'' = grp then
        (case map_of (reconn_notif self) path of
           Some nid \<Rightarrow> close_notify_priv nid self
         | None \<Rightarrow> self)
      else self)"

definition dq :: string where
  "dq = [CHR 0x22]"

definition WebAuthenticate :: "string \<Rightarrow> string \<Rightarrow> Notify \<Rightarrow> Notify" where
  "WebAuthenticate path url self =
     (let s1 = (if map_of (auth_notif self) path \<noteq> None
                then CloseNotification ''auth'' path self else self);
          (r, s2) = notify_priv ''OpenVPN - Authentication Required'' (''Visit '' @ url) s1
      in s2\<lparr>auth_notif := AList.update path r (auth_notif s2)\<rparr>)"

definition Connected :: "string \<Rightarrow> string \<Rightarrow> Notify \<Rightarrow> Notify" where
  "Connected path name self =
     (let s1 = (if map_of (auth_notif self) path \<noteq> None
                then CloseNotification ''auth'' path self else self);
          (r, s2) = notify_priv ''OpenVPN - Authentication Successful''
                      (''OpenVPN session '' @ dq @ name @ dq @ '' connected successfully'') s1
      in s2\<lparr>auth_notif := AList.update path r (auth_notif s2)\<rparr>)"

definition Reconnecting :: "string \<Rightarrow> string \<Rightarrow> Notify \<Rightarrow> Notify" where
  "Reconnecting path name self =
     (let s1 = (if map_of (reconn_notif self) path \<noteq> None
                then CloseNotification ''reconnect'' path self else self);
          (r, s2) = notify_priv ''OpenVPN session reconnecting''
                      (''Session '' @ dq @ name @ dq @ '' is reconnecting'') s1
      in s2\<lparr>reconn_notif := AList.update path r (reconn_notif s2)\<rparr>)"

definition Reconnected :: "string \<Rightarrow> string \<Rightarrow> Notify \<Rightarrow> Notify" where
  "Reconnected path name self =
     (let s1 = (if map_of (reconn_notif self) path \<noteq> None
                then CloseNotification ''reconnect'' path self else self);
          (r, s2) = notify_priv ''OpenVPN session reconnected''
                      (''Session '' @ dq @ name @ dq @ '' reconnected successfully'') s1
      in s2\<lparr>reconn_notif := AList.update path r (reconn_notif s2)\<rparr>)"

definition Disconnected :: "string \<Rightarrow> string \<Rightarrow> Notify \<Rightarrow> Notify" where
  "Disconnected path name self =
     (let s1 = (if map_of (auth_notif self) path \<noteq> None
                then CloseNotification ''auth'' path self else self);
          s2 = (if map_of (reconn_notif s1) path \<noteq> None
                then CloseNotification ''reconnect'' path s1 else s1);
          (r, s3) = notify_priv ''OpenVPN session disconnected''
                      (''Session '' @ dq @ name @ dq @ '' was disconnected'') s2
      in s3\<lparr>reconn_notif := AList.update path r (reconn_notif s3)\<rparr>)"

section \<open>The session objects of the session manager\<close>

text \<open>
  Modelled from the spec: the \<open>Session\<close> proxy object of the \<open>openvpn3\<close> module, which is
  not part of the two scripts. The spec lists \<open>GetPath()\<close>, \<open>GetProperty(name)\<close> and
  \<open>StatusChangeCallback(handler|null)\<close>, where a handler subscribes and null detaches.
  A proxy carries the path and configuration name the manager reports for it and the
  status-change handler attached through it, if any. The only handler the watcher ever
  attaches is its own bound method \<open>__status_chg_handler\<close>.
\<close>

datatype callback = WatcherStatusChgHandler

record Session =
  object_path :: string
  config_name :: string
  status_callback :: "callback option"

definition GetPath :: "Session \<Rightarrow> string" where
  "GetPath sess = object_path sess"

definition GetProperty_config_name :: "Session \<Rightarrow> string" where
  "GetProperty_config_name sess = config_name sess"

definition StatusChangeCallback :: "callback option \<Rightarrow> Session \<Rightarrow> Session" where
  "StatusChangeCallback cb sess = sess\<lparr>status_callback := cb\<rparr>"

section \<open>class SessionWatcher\<close>

text \<open>
  The watcher's \<open>__notify\<close> field refers to the one \<open>Notify\<close> object of the process, so
  every method takes that object's state and returns it updated, next to the watcher's
  own fields. The one-second \<open>time.sleep\<close> of the constructor has no effect on the state.
\<close>

record SessionWatcher =
  session :: Session
  reconnecting :: bool
  path :: string
  cfgname :: string

definition SessionWatcher_init :: "Session \<Rightarrow> SessionWatcher" where
  "SessionWatcher_init sess =
     \<lparr>session = StatusChangeCallback (Some WatcherStatusChgHandler) sess,
      reconnecting = False,
      path = GetPath sess,
      cfgname = GetProperty_config_name sess\<rparr>"

definition evaluate_status ::
  "StatusMajor \<Rightarrow> StatusMinor \<Rightarrow> string \<Rightarrow> SessionWatcher \<times> Notify
     \<Rightarrow> SessionWatcher \<times> Notify" where
  "evaluate_status major minor msg st =
     (case st of (self, n) \<Rightarrow>
        if SESSION = major then
          (if SESS_AUTH_URL = minor then (self, WebAuthenticate (path self) msg n)
           else (self, n))
        else if CONNECTION = major then
          (if CONN_CONNECTED = minor then
             (if reconnecting self = False then
                (self, Connected (path self) (cfgname self) n)
              else
                (self\<lparr>reconnecting := False\<rparr>, Reconnected (path self) (cfgname self) n))
           else if CONN_RECONNECTING = minor then
             (self\<lparr>reconnecting := True\<rparr>, Reconnecting (path self) (cfgname self) n)
           else if CONN_DISCONNECTED = minor then
             (self, Disconnected (path self) (cfgname self) n)
           else (self, n))
        else (self, n))"

text \<open>
  \<open>__status_chg_handler\<close> converts the raw codes of the signal with the enumeration
  constructors \<open>openvpn3.StatusMajor(major)\<close> and \<open>openvpn3.StatusMinor(minor)\<close>, which
  raise \<open>ValueError\<close> on a code that is no member. The two tables are parameters.
\<close>

datatype error = ValueError

definition status_chg_handler ::
  "(nat \<Rightarrow> StatusMajor option) \<Rightarrow> (nat \<Rightarrow> StatusMinor option) \<Rightarrow> nat \<Rightarrow> nat \<Rightarrow> string
     \<Rightarrow> SessionWatcher \<times> Notify \<Rightarrow> error + SessionWatcher \<times> Notify" where
  "status_chg_handler major_of minor_of major minor msg st =
     (case major_of major of
        None \<Rightarrow> Inl ValueError
      | Some maj \<Rightarrow>
          (case minor_of minor of
             None \<Rightarrow> Inl ValueError
           | Some mn \<Rightarrow> Inr (evaluate_status maj mn msg st)))"

definition Stop :: "SessionWatcher \<times> Notify \<Rightarrow> SessionWatcher \<times> Notify" where
  "Stop st =
     (case st of (self, n) \<Rightarrow>
        (let n1 = CloseNotification ''auth'' (path self) n
         in (self\<lparr>session := StatusChangeCallback None (session self)\<rparr>, n1)))"

text \<open>A status event as \<open>__evaluate_status\<close> receives it, and a run over a list of them.\<close>

type_synonym status_event = "StatusMajor \<times> StatusMinor \<times> string"

fun deliver :: "status_event list \<Rightarrow> SessionWatcher \<times> Notify \<Rightarrow> SessionWatcher \<times> Notify" where
  "deliver [] st = st"
| "deliver ((major, minor, msg) # evs) st = deliver evs (evaluate_status major minor msg st)"

section \<open>class SessionManagerWatcher\<close>

text \<open>
  \<open>SessionWatcher\<close> objects are mutable and are reached by reference: from the registry
  \<open>__sessions\<close>, and from the subscription that their constructor makes. \<open>objects\<close> is the
  store of every watcher constructed so far; a reference is an index into it, and the
  registry maps a session path to a reference. \<open>deref\<close> reads the store; a reference
  taken from the registry always denotes a constructed object.
  The session manager's \<open>Retrieve(path)\<close> and the result of \<open>os.getuid()\<close> are parameters.
\<close>

record SessionManagerEvent =
  event_owner :: nat
  event_type :: SessionManagerEventType
  event_path :: string

record SessionManagerWatcher =
  notify :: Notify
  objects :: "SessionWatcher list"
  sessions :: "(string \<times> nat) list"

definition SessionManagerWatcher_init :: "NotificationService \<Rightarrow> SessionManagerWatcher" where
  "SessionManagerWatcher_init svc = \<lparr>notify = Notify_init svc, objects = [], sessions = []\<rparr>"

definition deref :: "SessionWatcher list \<Rightarrow> nat \<Rightarrow> SessionWatcher option" where
  "deref objs r = (if r < length objs then Some (objs ! r) else None)"

definition Register ::
  "(string \<Rightarrow> Session) \<Rightarrow> string \<Rightarrow> SessionManagerWatcher \<Rightarrow> SessionManagerWatcher" where
  "Register Retrieve p self =
     (let sess = Retrieve p;
          w = SessionWatcher_init sess;
          r = length (objects self)
      in self\<lparr>objects := objects self @ [w],
              sessions := AList.update p r (sessions self)\<rparr>)"

definition mgr_event_handler ::
  "nat \<Rightarrow> (string \<Rightarrow> Session) \<Rightarrow> SessionManagerEvent \<Rightarrow> SessionManagerWatcher
     \<Rightarrow> SessionManagerWatcher" where
  "mgr_event_handler getuid Retrieve event self =
     (if event_owner event \<in> set [getuid, 0] then
        (if SESS_CREATED = event_type event then
           Register Retrieve (event_path event) self
         else if SESS_DESTROYED = event_type event then
           (case map_of (sessions self) (event_path event) of
              None \<Rightarrow> self
            | Some r \<Rightarrow>
                (case deref (objects self) r of
                   None \<Rightarrow> self
                 | Some w \<Rightarrow>
                     (let (w1, n1) = Stop (w, notify self)
                      in self\<lparr>notify := n1,
                              objects := (objects self)[r := w1],
                              sessions := AList.delete (event_path event) (sessions self)\<rparr>)))
         else self)
      else self)"

text \<open>What can happen to the registry: a call of \<open>Register\<close>, or a manager event.\<close>

datatype action = CallRegister string | ManagerEvent SessionManagerEvent

fun step ::
  "nat \<Rightarrow> (string \<Rightarrow> Session) \<Rightarrow> action \<Rightarrow> SessionManagerWatcher \<Rightarrow> SessionManagerWatcher" where
  "step getuid Retrieve (CallRegister p) self = Register Retrieve p self"
| "step getuid Retrieve (ManagerEvent event) self = mgr_event_handler getuid Retrieve event self"

fun run ::
  "nat \<Rightarrow> (string \<Rightarrow> Session) \<Rightarrow> action list \<Rightarrow> SessionManagerWatcher \<Rightarrow> SessionManagerWatcher" where
  "run getuid Retrieve [] self = self"
| "run getuid Retrieve (a # as) self = run getuid Retrieve as (step getuid Retrieve a self)"

section \<open>watch-session-log.py\<close>

text \<open>
  The log tailer writes lines to standard output and owns one \<open>GLib.MainLoop\<close>, which
  \<open>mainloop.quit()\<close> stops. The text of \<open>datetime.datetime.now()\<close> and the texts that
  \<open>%s\<close> gives for an enumeration member are parameters of the handlers.
\<close>

record Tailer =
  stdout :: "string list"
  mainloop_running :: bool

definition print :: "string \<Rightarrow> Tailer \<Rightarrow> Tailer" where
  "print line t = t\<lparr>stdout := stdout t @ [line]\<rparr>"

definition mainloop_quit :: "Tailer \<Rightarrow> Tailer" where
  "mainloop_quit t = t\<lparr>mainloop_running := False\<rparr>"

definition newline :: char where
  "newline = CHR 0x0A"

text \<open>Python's \<open>str.split(sep)\<close> for a separator of one character.\<close>

fun split :: "char \<Rightarrow> string \<Rightarrow> string list" where
  "split sep [] = [[]]"
| "split sep (c # cs) =
     (if c = sep then [] # split sep cs
      else (case split sep cs of
              [] \<Rightarrow> [[c]]
            | l # ls \<Rightarrow> (c # l) # ls))"

definition LogHandler :: "string \<Rightarrow> nat \<Rightarrow> nat \<Rightarrow> string \<Rightarrow> Tailer \<Rightarrow> Tailer" where
  "LogHandler now grp catg msg t =
     (let loglines = filter (\<lambda>l. length l > 0) (split newline msg)
      in if length loglines < 1 then t
         else (case loglines of
                 [] \<Rightarrow> t
               | first # rest \<Rightarrow>
                   foldl (\<lambda>t1 line. print (replicate 33 CHR '' '' @ line) t1)
                     (print (now @ '' [LOG] '' @ first) t) rest))"

definition StatusHandler ::
  "(nat \<Rightarrow> StatusMajor option) \<Rightarrow> (nat \<Rightarrow> StatusMinor option)
     \<Rightarrow> (StatusMajor \<Rightarrow> string) \<Rightarrow> (StatusMinor \<Rightarrow> string) \<Rightarrow> string
     \<Rightarrow> nat \<Rightarrow> nat \<Rightarrow> string \<Rightarrow> Tailer \<Rightarrow> error + Tailer" where
  "StatusHandler major_of minor_of str_major str_minor now major minor msg t =
     (case major_of major of
        None \<Rightarrow> Inl ValueError
      | Some maj \<Rightarrow>
          (case minor_of minor of
             None \<Rightarrow> Inl ValueError
           | Some mn \<Rightarrow>
               (let t0 = print (now @ '' [STATUS] ('' @ str_major maj @ '', '' @ str_minor mn
                                  @ '') '' @ msg) t;
                    t1 = (if SESSION = maj \<and> PROC_STOPPED = mn then mainloop_quit t0 else t0);
                    t2 = (if CONNECTION = maj \<and> CONN_AUTH_FAILED = mn then mainloop_quit t1 else t1);
                    t3 = (if CONNECTION = maj \<and> CONN_FAILED = mn then mainloop_quit t2 else t2);
                    t4 = (if CONNECTION = maj \<and> CONN_DISCONNECTED = mn then mainloop_quit t3 else t3)
                in Inr t4)))"

subsection \<open>The main program up to the run loop\<close>

text \<open>
  \<open>optparser.error(message)\<close> is argparse's: it writes the usage and the message to
  standard error and leaves the process with exit status 2. The calls made on the
  session manager and on the session object are recorded in order; \<open>True\<close> stands for
  the handler function and \<open>False\<close> for \<open>None\<close>. \<open>LookupConfigName\<close> is a parameter.
  The log level is handed on as the text of the option.
\<close>

record Opts =
  opt_log_level :: "string option"
  opt_config :: "string option"
  opt_path :: "string option"

datatype exit = SystemExit nat string

datatype tailer_call =
    CallLookupConfigName string
  | CallRetrieve string
  | CallLogCallback bool
  | CallStatusChangeCallback bool
  | CallSetProperty string string

definition optparser_error :: "string \<Rightarrow> exit" where
  "optparser_error message = SystemExit 2 message"

definition find_session_path ::
  "(string \<Rightarrow> string list) \<Rightarrow> Opts \<Rightarrow> tailer_call list \<times> (exit + string)" where
  "find_session_path LookupConfigName opts =
     (case opt_config opts of
        Some name \<Rightarrow>
          (let search = LookupConfigName name;
               made = [CallLookupConfigName name]
           in if length search = 0 then
                (made, Inl (optparser_error
                   (''No VPN session found with the '' @ dq @ name @ dq @ '' configuration name'')))
              else if length search > 1 then
                (made, Inl (optparser_error
                   (''More than one running VPN session was found under the name '' @ dq @ name
                      @ dq @ ''. Use --path instead'')))
              else (made, Inr (search ! 0)))
      | None \<Rightarrow>
          (case opt_path opts of
             Some p \<Rightarrow> ([], Inr p)
           | None \<Rightarrow> ([], Inl (optparser_error ''One of --config or --path must be provided''))))"

definition main_setup ::
  "(string \<Rightarrow> string list) \<Rightarrow> Opts \<Rightarrow> tailer_call list \<times> exit option" where
  "main_setup LookupConfigName opts =
     (case find_session_path LookupConfigName opts of
        (made, Inl e) \<Rightarrow> (made, Some e)
      | (made, Inr session_path) \<Rightarrow>
          (made @ [CallRetrieve session_path, CallLogCallback True, CallStatusChangeCallback True]
             @ (case opt_log_level opts of
                  None \<Rightarrow> []
                | Some level \<Rightarrow> [CallSetProperty ''log_verbosity'' level]),
           None))"

section \<open>Predicates used to state the properties\<close>

text \<open>
  Which status events matter to the reconnect flag. \<open>unanswered answers evs\<close> says that
  some RECONNECTING event of \<open>evs\<close> has no later event that satisfies \<open>answers\<close>;
  lemma \<open>unanswered_iff\<close> below gives the same with positions.
\<close>

definition is_RECONNECTING :: "status_event \<Rightarrow> bool" where
  "is_RECONNECTING e = (fst e = CONNECTION \<and> fst (snd e) = CONN_RECONNECTING)"

definition is_CONNECTED :: "status_event \<Rightarrow> bool" where
  "is_CONNECTED e = (fst e = CONNECTION \<and> fst (snd e) = CONN_CONNECTED)"

definition is_DISCONNECTED :: "status_event \<Rightarrow> bool" where
  "is_DISCONNECTED e = (fst e = CONNECTION \<and> fst (snd e) = CONN_DISCONNECTED)"

definition is_CONNECTED_or_DISCONNECTED :: "status_event \<Rightarrow> bool" where
  "is_CONNECTED_or_DISCONNECTED e = (is_CONNECTED e \<or> is_DISCONNECTED e)"

fun unanswered :: "(status_event \<Rightarrow> bool) \<Rightarrow> status_event list \<Rightarrow> bool" where
  "unanswered answers [] = False"
| "unanswered answers (e # evs) =
     ((is_RECONNECTING e \<and> \<not> list_ex answers evs) \<or> unanswered answers evs)"

text \<open>
  The state of a sink in which no id was ever kept: every value stored in the two
  dictionaries is \<open>None\<close>, and the service has received no \<open>CloseNotification\<close> call.
\<close>

definition is_close_call :: "svc_call \<Rightarrow> bool" where
  "is_close_call c = (case c of SvcCloseNotification nid \<Rightarrow> True | _ \<Rightarrow> False)"

definition ids_dropped :: "Notify \<Rightarrow> bool" where
  "ids_dropped n =
     (list_all (\<lambda>kv. snd kv = None) (auth_notif n)
      \<and> list_all (\<lambda>kv. snd kv = None) (reconn_notif n)
      \<and> \<not> list_ex is_close_call (calls (service n)))"

text \<open>The four statuses after which the log tailer has nothing left to wait for.\<close>

definition terminal_statuses :: "(StatusMajor \<times> StatusMinor) list" where
  "terminal_statuses =
     [(SESSION, PROC_STOPPED), (CONNECTION, CONN_AUTH_FAILED),
      (CONNECTION, CONN_FAILED), (CONNECTION, CONN_DISCONNECTED)]"

text \<open>
  A sample of the enumeration tables, for evaluating the status handlers at raw codes:
  2 and 3 are major codes, 11 is a minor code, and every other number is no member.
\<close>

definition sample_major_of :: "nat \<Rightarrow> StatusMajor option" where
  "sample_major_of k = (if k = 2 then Some CONNECTION else if k = 3 then Some SESSION else None)"

definition sample_minor_of :: "nat \<Rightarrow> StatusMinor option" where
  "sample_minor_of k = (if k = 11 then Some CONN_AUTH_FAILED else None)"

definition sample_str_major :: "StatusMajor \<Rightarrow> string" where
  "sample_str_major m =
     (case m of
        SESSION \<Rightarrow> ''StatusMajor.SESSION''
      | CONNECTION \<Rightarrow> ''StatusMajor.CONNECTION''
      | MajorOther k \<Rightarrow> ''StatusMajor.OTHER'')"

definition sample_str_minor :: "StatusMinor \<Rightarrow> string" where
  "sample_str_minor m =
     (case m of
        CONN_AUTH_FAILED \<Rightarrow> ''StatusMinor.CONN_AUTH_FAILED''
      | _ \<Rightarrow> ''StatusMinor.OTHER'')"

text \<open>Every reference held by the registry denotes a constructed watcher.\<close>

definition refs_valid :: "SessionManagerWatcher \<Rightarrow> bool" where
  "refs_valid self = list_all (\<lambda>kv. snd kv < length (objects self)) (sessions self)"

section \<open>The reconnect flag of a SessionWatcher\<close>

lemma evaluate_status_flag:
  "reconnecting (fst (evaluate_status major minor msg (w, n))) =
     (if major = CONNECTION \<and> minor = CONN_RECONNECTING then True
      else if major = CONNECTION \<and> minor = CONN_CONNECTED then False
      else reconnecting w)"
  by (simp add: evaluate_status_def)

lemma deliver_flag:
  "reconnecting (fst (deliver evs (w, n))) =
     (unanswered is_CONNECTED evs \<or> (reconnecting w \<and> \<not> list_ex is_CONNECTED evs))"
proof (induction evs arbitrary: w n)
  case Nil
  show ?case by simp
next
  case (Cons e evs)
  obtain major minor msg where e: "e = (major, minor, msg)" by (cases e)
  obtain w1 n1 where st: "evaluate_status major minor msg (w, n) = (w1, n1)"
    by (cases "evaluate_status major minor msg (w, n)")
  have fl: "reconnecting w1 =
     (if major = CONNECTION \<and> minor = CONN_RECONNECTING then True
      else if major = CONNECTION \<and> minor = CONN_CONNECTED then False
      else reconnecting w)"
    using evaluate_status_flag [of major minor msg w n] st by simp
  show ?case
    using Cons.IH [of w1 n1] fl
    by (auto simp: e st is_RECONNECTING_def is_CONNECTED_def)
qed

lemma later_none_Cons:
  "(\<forall>j. 0 < j \<and> j < length (e # evs) \<longrightarrow> \<not> Q ((e # evs) ! j)) = (\<not> list_ex Q evs)"
proof
  assume h: "\<forall>j. 0 < j \<and> j < length (e # evs) \<longrightarrow> \<not> Q ((e # evs) ! j)"
  show "\<not> list_ex Q evs"
  proof
    assume "list_ex Q evs"
    then obtain k where k: "k < length evs" "Q (evs ! k)"
      by (auto simp: list_ex_iff in_set_conv_nth)
    from h have "0 < Suc k \<and> Suc k < length (e # evs) \<longrightarrow> \<not> Q ((e # evs) ! Suc k)" by blast
    with k show False by simp
  qed
next
  assume h: "\<not> list_ex Q evs"
  show "\<forall>j. 0 < j \<and> j < length (e # evs) \<longrightarrow> \<not> Q ((e # evs) ! j)"
  proof (intro allI impI)
    fix j assume j: "0 < j \<and> j < length (e # evs)"
    then obtain k where k: "j = Suc k" by (cases j) auto
    with j have "evs ! k \<in> set evs" by simp
    with h k show "\<not> Q ((e # evs) ! j)" by (auto simp: list_ex_iff)
  qed
qed

lemma later_none_shift:
  "(\<forall>j. Suc i < j \<and> j < length (e # evs) \<longrightarrow> \<not> Q ((e # evs) ! j)) =
   (\<forall>j. i < j \<and> j < length evs \<longrightarrow> \<not> Q (evs ! j))"
proof
  assume h: "\<forall>j. Suc i < j \<and> j < length (e # evs) \<longrightarrow> \<not> Q ((e # evs) ! j)"
  show "\<forall>j. i < j \<and> j < length evs \<longrightarrow> \<not> Q (evs ! j)"
  proof (intro allI impI)
    fix j assume "i < j \<and> j < length evs"
    with h [rule_format, of "Suc j"] show "\<not> Q (evs ! j)" by simp
  qed
next
  assume h: "\<forall>j. i < j \<and> j < length evs \<longrightarrow> \<not> Q (evs ! j)"
  show "\<forall>j. Suc i < j \<and> j < length (e # evs) \<longrightarrow> \<not> Q ((e # evs) ! j)"
  proof (intro allI impI)
    fix j assume j: "Suc i < j \<and> j < length (e # evs)"
    then obtain k where k: "j = Suc k" by (cases j) auto
    with j h [rule_format, of k] show "\<not> Q ((e # evs) ! j)" by simp
  qed
qed

lemma unanswered_iff:
  "unanswered answers evs \<longleftrightarrow>
     (\<exists>i < length evs. is_RECONNECTING (evs ! i)
        \<and> (\<forall>j. i < j \<and> j < length evs \<longrightarrow> \<not> answers (evs ! j)))"
proof (induction evs)
  case Nil
  show ?case by simp
next
  case (Cons e evs)
  let ?R = "\<lambda>xs i. is_RECONNECTING (xs ! i)
        \<and> (\<forall>j. i < j \<and> j < length xs \<longrightarrow> \<not> answers (xs ! j))"
  have "(\<exists>i < length (e # evs). ?R (e # evs) i) =
        (?R (e # evs) 0 \<or> (\<exists>i < length evs. ?R (e # evs) (Suc i)))"
    by (simp add: Ex_less_Suc2 del: nth_Cons_Suc)
  also have "?R (e # evs) 0 = (is_RECONNECTING e \<and> \<not> list_ex answers evs)"
    using later_none_Cons [of e evs answers] by simp
  also have "(\<exists>i < length evs. ?R (e # evs) (Suc i)) = (\<exists>i < length evs. ?R evs i)"
    using later_none_shift [of _ e evs answers] by simp
  finally show ?case using Cons.IH by simp
qed

text \<open>
  C1, as amended. For a watcher that starts with \<open>reconnecting = False\<close>, after any finite
  list of status events the flag is true exactly when the list holds a
  CONNECTION/RECONNECTING event with no later CONNECTION/CONNECTED event. Only CONNECTED
  clears the flag: the CONNECTION/DISCONNECTED branch of \<open>__evaluate_status\<close> calls
  \<open>Disconnected\<close> and leaves the flag as it is.
\<close>

theorem reconnecting_iff_reconnect_not_yet_connected:
  assumes "reconnecting w = False"
  shows "reconnecting (fst (deliver evs (w, n))) \<longleftrightarrow>
     (\<exists>i < length evs. is_RECONNECTING (evs ! i)
        \<and> (\<forall>j. i < j \<and> j < length evs \<longrightarrow> \<not> is_CONNECTED (evs ! j)))"
  using assms deliver_flag [of evs w n] unanswered_iff [of is_CONNECTED evs] by simp

text \<open>
  The theorem at the events RECONNECTING, DISCONNECTED for a freshly constructed watcher.
\<close>

theorem reconnecting_iff_reconnect_not_yet_connected_witness:
  "reconnecting (SessionWatcher_init
      \<lparr>object_path = ''/s/1'', config_name = ''work-vpn'', status_callback = None\<rparr>) = False
   \<and> (reconnecting (fst (deliver [(CONNECTION, CONN_RECONNECTING, []), (CONNECTION, CONN_DISCONNECTED, [])]
        (SessionWatcher_init
           \<lparr>object_path = ''/s/1'', config_name = ''work-vpn'', status_callback = None\<rparr>,
         Notify_init \<lparr>calls = [], next_id = 1\<rparr>))) \<longleftrightarrow>
     (\<exists>i < length [(CONNECTION, CONN_RECONNECTING, []), (CONNECTION, CONN_DISCONNECTED, [])].
         is_RECONNECTING ([(CONNECTION, CONN_RECONNECTING, []), (CONNECTION, CONN_DISCONNECTED, [])] ! i)
        \<and> (\<forall>j. i < j \<and> j < length [(CONNECTION, CONN_RECONNECTING, []), (CONNECTION, CONN_DISCONNECTED, [])]
              \<longrightarrow> \<not> is_CONNECTED
                    ([(CONNECTION, CONN_RECONNECTING, []), (CONNECTION, CONN_DISCONNECTED, [])] ! j))))"
  using reconnecting_iff_reconnect_not_yet_connected
      [of "SessionWatcher_init
             \<lparr>object_path = ''/s/1'', config_name = ''work-vpn'', status_callback = None\<rparr>"
          "[(CONNECTION, CONN_RECONNECTING, []), (CONNECTION, CONN_DISCONNECTED, [])]"
          "Notify_init \<lparr>calls = [], next_id = 1\<rparr>"]
  by (simp add: SessionWatcher_init_def)

text \<open>
  With CONNECTION/DISCONNECTED counted as an answer too, the equivalence fails: after
  RECONNECTING, DISCONNECTED the flag is still true, although the RECONNECTING event
  is followed by a DISCONNECTED one.
\<close>

theorem disconnected_leaves_reconnecting_set:
  "reconnecting (fst (deliver [(CONNECTION, CONN_RECONNECTING, []), (CONNECTION, CONN_DISCONNECTED, [])]
        (SessionWatcher_init
           \<lparr>object_path = ''/s/1'', config_name = ''work-vpn'', status_callback = None\<rparr>,
         Notify_init \<lparr>calls = [], next_id = 1\<rparr>)))
   \<noteq> unanswered is_CONNECTED_or_DISCONNECTED
        [(CONNECTION, CONN_RECONNECTING, []), (CONNECTION, CONN_DISCONNECTED, [])]"
  by (simp add: evaluate_status_def SessionWatcher_init_def is_CONNECTED_or_DISCONNECTED_def
        is_RECONNECTING_def is_CONNECTED_def is_DISCONNECTED_def)

section \<open>What reaches the notification service\<close>

text \<open>
  C2. The sink is to return the id the service gave, store it under the session's key
  and close it on the service before the next notification of the same category.
  \<open>__notify\<close> returns \<open>None\<close> whatever the service answered; after two \<open>Reconnecting\<close>
  calls for one session the key holds \<open>None\<close> and the service has received two
  \<open>Notify\<close> calls and no \<open>CloseNotification\<close>.
\<close>

theorem notify_priv_drops_service_id:
  "fst (notify_priv title msg self) = None
   \<and> reconn_notif (Reconnecting ''/s/1'' ''work-vpn'' (Reconnecting ''/s/1'' ''work-vpn''
        (Notify_init \<lparr>calls = [], next_id = 1\<rparr>))) = [(''/s/1'', None)]
   \<and> calls (service (Reconnecting ''/s/1'' ''work-vpn'' (Reconnecting ''/s/1'' ''work-vpn''
        (Notify_init \<lparr>calls = [], next_id = 1\<rparr>)))) =
      [SvcNotify ''OpenVPN 3 Linux'' 0 ''network'' ''OpenVPN session reconnecting''
         (''Session '' @ dq @ ''work-vpn'' @ dq @ '' is reconnecting'') 0,
       SvcNotify ''OpenVPN 3 Linux'' 0 ''network'' ''OpenVPN session reconnecting''
         (''Session '' @ dq @ ''work-vpn'' @ dq @ '' is reconnecting'') 0]"
  by (simp add: notify_priv_def notify_method_def Reconnecting_def Notify_init_def
        CloseNotification_def close_notify_priv_def)

text \<open>
  C3. The events RECONNECTING, CONNECTED for session "work-vpn" are to give a
  "reconnecting" notification, a close of it, and a "reconnected" notification, with
  the flag false afterwards. The service receives the two notifications, "reconnected"
  and not "connected", and the flag is false; no \<open>CloseNotification\<close> lies between them,
  because the stored id is \<open>None\<close>.
\<close>

theorem reconnect_scenario_service_calls:
  "calls (service (snd (deliver [(CONNECTION, CONN_RECONNECTING, []), (CONNECTION, CONN_CONNECTED, [])]
        (SessionWatcher_init
           \<lparr>object_path = ''/s/1'', config_name = ''work-vpn'', status_callback = None\<rparr>,
         Notify_init \<lparr>calls = [], next_id = 1\<rparr>)))) =
      [SvcNotify ''OpenVPN 3 Linux'' 0 ''network'' ''OpenVPN session reconnecting''
         (''Session '' @ dq @ ''work-vpn'' @ dq @ '' is reconnecting'') 0,
       SvcNotify ''OpenVPN 3 Linux'' 0 ''network'' ''OpenVPN session reconnected''
         (''Session '' @ dq @ ''work-vpn'' @ dq @ '' reconnected successfully'') 0]
   \<and> reconnecting (fst (deliver [(CONNECTION, CONN_RECONNECTING, []), (CONNECTION, CONN_CONNECTED, [])]
        (SessionWatcher_init
           \<lparr>object_path = ''/s/1'', config_name = ''work-vpn'', status_callback = None\<rparr>,
         Notify_init \<lparr>calls = [], next_id = 1\<rparr>))) = False"
  by (simp add: evaluate_status_def SessionWatcher_init_def GetPath_def GetProperty_config_name_def
        StatusChangeCallback_def notify_priv_def notify_method_def Reconnecting_def Reconnected_def
        Notify_init_def CloseNotification_def close_notify_priv_def)

text \<open>
  C7. \<open>Stop()\<close> is to close the outstanding auth notification of its session and to
  detach the status-change subscription. It always detaches; but after
  \<open>WebAuthenticate\<close> has shown a notification, \<open>Stop()\<close> sends no \<open>CloseNotification\<close>
  to the service, again because the id stored for the session is \<open>None\<close>.
\<close>

theorem Stop_leaves_auth_notification_open:
  "calls (service (snd (Stop
        (SessionWatcher_init
           \<lparr>object_path = ''/s/1'', config_name = ''work-vpn'', status_callback = None\<rparr>,
         WebAuthenticate ''/s/1'' ''https://auth.example/''
           (Notify_init \<lparr>calls = [], next_id = 1\<rparr>))))) =
      [SvcNotify ''OpenVPN 3 Linux'' 0 ''network'' ''OpenVPN - Authentication Required''
         ''Visit https://auth.example/'' 0]
   \<and> status_callback (session (fst (Stop (w, n)))) = None"
  by (simp add: Stop_def SessionWatcher_init_def GetPath_def GetProperty_config_name_def
        StatusChangeCallback_def notify_priv_def notify_method_def WebAuthenticate_def
        Notify_init_def CloseNotification_def close_notify_priv_def)

text \<open>Without an entry for the session, \<open>Stop()\<close> leaves the sink and the service alone.\<close>

lemma Stop_without_auth_entry:
  "map_of (auth_notif n) (path w) = None \<Longrightarrow> snd (Stop (w, n)) = n"
  by (simp add: Stop_def CloseNotification_def)

subsection \<open>The ids are lost in every run\<close>

lemma map_of_all_None:
  "list_all (\<lambda>kv. snd kv = None) al \<Longrightarrow> map_of al k = Some v \<Longrightarrow> v = None"
  by (induction al) (auto split: if_splits)

lemma update_None_all:
  "list_all (\<lambda>kv. snd kv = None) al \<Longrightarrow> list_all (\<lambda>kv. snd kv = None) (AList.update k None al)"
  by (induction al) auto

lemma CloseNotification_ids_dropped:
  "ids_dropped n \<Longrightarrow> CloseNotification grp p n = n"
  by (auto simp: CloseNotification_def close_notify_priv_def ids_dropped_def
      split: option.splits dest: map_of_all_None)

lemma notify_priv_ids_dropped:
  "ids_dropped n \<Longrightarrow> ids_dropped (snd (notify_priv title msg n))"
  by (simp add: notify_priv_def notify_method_def ids_dropped_def is_close_call_def)

lemma notify_priv_dicts:
  "auth_notif (snd (notify_priv title msg n)) = auth_notif n"
  "reconn_notif (snd (notify_priv title msg n)) = reconn_notif n"
  by (simp_all add: notify_priv_def notify_method_def)

lemma store_auth_ids_dropped:
  "ids_dropped n \<Longrightarrow> ids_dropped (n\<lparr>auth_notif := AList.update p None (auth_notif n)\<rparr>)"
  by (simp add: ids_dropped_def update_None_all)

lemma store_reconn_ids_dropped:
  "ids_dropped n \<Longrightarrow> ids_dropped (n\<lparr>reconn_notif := AList.update p None (reconn_notif n)\<rparr>)"
  by (simp add: ids_dropped_def update_None_all)

lemma notify_priv_fst: "fst (notify_priv title msg n) = None"
  by (simp add: notify_priv_def notify_method_def)

lemma sink_ids_dropped:
  assumes "ids_dropped n"
  shows "ids_dropped (WebAuthenticate p url n)"
    and "ids_dropped (Connected p name n)"
    and "ids_dropped (Reconnecting p name n)"
    and "ids_dropped (Reconnected p name n)"
    and "ids_dropped (Disconnected p name n)"
  using assms
  by (simp_all add: WebAuthenticate_def Connected_def Reconnecting_def Reconnected_def
        Disconnected_def CloseNotification_ids_dropped Let_def
        case_prod_beta notify_priv_fst store_auth_ids_dropped store_reconn_ids_dropped
        notify_priv_ids_dropped)

lemma evaluate_status_ids_dropped:
  "ids_dropped n \<Longrightarrow> ids_dropped (snd (evaluate_status major minor msg (w, n)))"
  by (simp add: evaluate_status_def sink_ids_dropped)

lemma deliver_ids_dropped:
  "ids_dropped n \<Longrightarrow> ids_dropped (snd (deliver evs (w, n)))"
proof (induction evs arbitrary: w n)
  case Nil
  then show ?case by simp
next
  case (Cons e evs)
  obtain major minor msg where e: "e = (major, minor, msg)" by (cases e)
  obtain w1 n1 where st: "evaluate_status major minor msg (w, n) = (w1, n1)"
    by (cases "evaluate_status major minor msg (w, n)")
  have "ids_dropped n1"
    using evaluate_status_ids_dropped [OF Cons.prems, of major minor msg w] st by simp
  then show ?case using Cons.IH [of n1 w1] by (simp add: e st)
qed

text \<open>
  No run of status events through a watcher makes a sink that started empty send a
  \<open>CloseNotification\<close> to the service, and \<open>Stop()\<close> leaves such a sink as it is.
\<close>

lemma fresh_sink_never_closes:
  "\<not> list_ex is_close_call (calls (service (snd (deliver evs (w, Notify_init \<lparr>calls = [], next_id = k\<rparr>)))))"
proof -
  have "ids_dropped (Notify_init \<lparr>calls = [], next_id = k\<rparr>)"
    by (simp add: ids_dropped_def Notify_init_def)
  then have "ids_dropped (snd (deliver evs (w, Notify_init \<lparr>calls = [], next_id = k\<rparr>)))"
    by (rule deliver_ids_dropped)
  then show ?thesis by (simp add: ids_dropped_def)
qed

lemma Stop_ids_dropped: "ids_dropped n \<Longrightarrow> snd (Stop (w, n)) = n"
  by (simp add: Stop_def CloseNotification_ids_dropped)

section \<open>The log tailer\<close>

text \<open>
  C4, as amended. For every status event whose major and minor codes are members of the
  enumerations, \<open>StatusHandler\<close> prints the event, and afterwards the run loop is
  running exactly when it was running before and the pair (major, minor) is none of
  SESSION/PROC_STOPPED, CONNECTION/CONN_AUTH_FAILED, CONNECTION/CONN_FAILED and
  CONNECTION/CONN_DISCONNECTED. The handler converts the raw codes first, so an event
  with a code that is no member is not printed: the conversion raises \<open>ValueError\<close>.
\<close>

theorem StatusHandler_prints_and_quits_on_terminal:
  assumes "major_of major = Some maj" and "minor_of minor = Some mn"
  shows "\<exists>t1. StatusHandler major_of minor_of str_major str_minor now major minor msg t = Inr t1
     \<and> stdout t1 = stdout t @
          [now @ '' [STATUS] ('' @ str_major maj @ '', '' @ str_minor mn @ '') '' @ msg]
     \<and> mainloop_running t1 = (mainloop_running t \<and> (maj, mn) \<notin> set terminal_statuses)"
  using assms
  by (auto simp: StatusHandler_def print_def mainloop_quit_def terminal_statuses_def Let_def)

text \<open>The status (CONNECTION, CONN_AUTH_FAILED, "bad credentials"): printed, loop stopped.\<close>

theorem StatusHandler_prints_and_quits_on_terminal_witness:
  "[2 \<mapsto> CONNECTION] (2::nat) = Some CONNECTION
   \<and> [11 \<mapsto> CONN_AUTH_FAILED] (11::nat) = Some CONN_AUTH_FAILED
   \<and> StatusHandler [2 \<mapsto> CONNECTION] [11 \<mapsto> CONN_AUTH_FAILED]
        (\<lambda>m. ''StatusMajor.CONNECTION'') (\<lambda>m. ''StatusMinor.CONN_AUTH_FAILED'')
        ''2025-01-01 00:00:00.000000'' 2 11 ''bad credentials''
        \<lparr>stdout = [], mainloop_running = True\<rparr>
      = Inr \<lparr>stdout = [''2025-01-01 00:00:00.000000 [STATUS] (StatusMajor.CONNECTION, StatusMinor.CONN_AUTH_FAILED) bad credentials''],
             mainloop_running = False\<rparr>"
  using StatusHandler_prints_and_quits_on_terminal
     [of "[2 \<mapsto> CONNECTION]" 2 CONNECTION "[11 \<mapsto> CONN_AUTH_FAILED]" 11 CONN_AUTH_FAILED
      "\<lambda>m. ''StatusMajor.CONNECTION''" "\<lambda>m. ''StatusMinor.CONN_AUTH_FAILED''"
      "''2025-01-01 00:00:00.000000''" "''bad credentials''"
      "\<lparr>stdout = [], mainloop_running = True\<rparr>"]
  by (auto simp: terminal_statuses_def)

text \<open>
  Not every status event the handler receives is printed: for the event (2, 99, "x"),
  whose minor code is no member of the enumeration, the handler ends with \<open>ValueError\<close>
  before the \<open>print\<close>, and no line is written.
\<close>

theorem StatusHandler_unknown_code_not_printed:
  "StatusHandler sample_major_of sample_minor_of sample_str_major sample_str_minor
     ''2025-01-01 00:00:00.000000'' 2 99 ''x'' \<lparr>stdout = [], mainloop_running = True\<rparr>
   = Inl ValueError"
  by (simp add: StatusHandler_def sample_major_of_def sample_minor_of_def)

text \<open>This holds for any tables and any code they do not list.\<close>

lemma StatusHandler_raises_on_unknown_code:
  "major_of major = None \<or> minor_of minor = None \<Longrightarrow>
     StatusHandler major_of minor_of str_major str_minor now major minor msg t = Inl ValueError"
  by (auto simp: StatusHandler_def split: option.splits)

text \<open>
  C8. With the config-name option given and a lookup that returns no path or more than
  one, the program leaves with argparse's exit status 2 and a message that names the
  configuration (no path) or tells to use \<open>--path\<close> instead (several paths). The only
  call made is the lookup: no \<open>Retrieve\<close>, no \<open>LogCallback\<close>, no \<open>StatusChangeCallback\<close>.
\<close>

theorem config_lookup_usage_errors:
  assumes "opt_config opts = Some name" and "length (LookupConfigName name) \<noteq> 1"
  shows "main_setup LookupConfigName opts =
           ([CallLookupConfigName name],
            Some (SystemExit 2
              (if LookupConfigName name = []
               then ''No VPN session found with the '' @ dq @ name @ dq @ '' configuration name''
               else ''More than one running VPN session was found under the name '' @ dq @ name
                      @ dq @ ''. Use --path instead'')))"
  using assms
  by (cases "LookupConfigName name")
     (simp_all add: main_setup_def find_session_path_def optparser_error_def Let_def)

text \<open>\<open>--config foo\<close> with no session and with two sessions under that name.\<close>

theorem config_lookup_usage_errors_witness:
  "opt_config \<lparr>opt_log_level = None, opt_config = Some ''foo'', opt_path = None\<rparr> = Some ''foo''
   \<and> length ((\<lambda>name. []) ''foo'' :: string list) \<noteq> 1
   \<and> length ((\<lambda>name. [''/s/1'', ''/s/2'']) ''foo'') \<noteq> 1
   \<and> main_setup (\<lambda>name. []) \<lparr>opt_log_level = None, opt_config = Some ''foo'', opt_path = None\<rparr>
       = ([CallLookupConfigName ''foo''],
          Some (SystemExit 2
            (''No VPN session found with the '' @ dq @ ''foo'' @ dq @ '' configuration name'')))
   \<and> main_setup (\<lambda>name. [''/s/1'', ''/s/2''])
         \<lparr>opt_log_level = None, opt_config = Some ''foo'', opt_path = None\<rparr>
       = ([CallLookupConfigName ''foo''],
          Some (SystemExit 2
            (''More than one running VPN session was found under the name '' @ dq
                  @ ''foo'' @ dq @ ''. Use --path instead'')))"
  using config_lookup_usage_errors
          [of "\<lparr>opt_log_level = None, opt_config = Some ''foo'', opt_path = None\<rparr>" "''foo''"
              "\<lambda>name. []"]
        config_lookup_usage_errors
          [of "\<lparr>opt_log_level = None, opt_config = Some ''foo'', opt_path = None\<rparr>" "''foo''"
              "\<lambda>name. [''/s/1'', ''/s/2'']"]
  by simp

subsection \<open>Splitting a log message into lines\<close>

lemma split_nonempty: "split sep s \<noteq> []"
  by (induction s) (auto split: list.splits)

lemma split_append_sep: "split sep (a @ sep # b) = split sep a @ split sep b"
proof (induction a)
  case Nil
  show ?case by simp
next
  case (Cons c a)
  obtain l ls where "split sep a = l # ls"
    using split_nonempty [of sep a] by (cases "split sep a") auto
  with Cons show ?case by simp
qed

lemma split_concat: "concat (split sep s) = filter (\<lambda>ch. ch \<noteq> sep) s"
proof (induction s)
  case Nil
  show ?case by simp
next
  case (Cons c s)
  obtain l ls where "split sep s = l # ls"
    using split_nonempty [of sep s] by (cases "split sep s") auto
  with Cons show ?case by auto
qed

lemma split_no_sep: "l \<in> set (split sep s) \<Longrightarrow> sep \<notin> set l"
proof (induction s arbitrary: l)
  case Nil
  then show ?case by simp
next
  case (Cons c s)
  obtain x xs where "split sep s = x # xs"
    using split_nonempty [of sep s] by (cases "split sep s") auto
  with Cons show ?case by (auto split: if_splits)
qed

lemma split_only_sep:
  "\<forall>ch \<in> set s. ch = sep \<Longrightarrow> filter (\<lambda>l. length l > 0) (split sep s) = []"
  by (induction s) auto

lemma foldl_print:
  "foldl (\<lambda>t1 line. print (f line) t1) t ls = t\<lparr>stdout := stdout t @ map f ls\<rparr>"
  by (induction ls arbitrary: t) (simp_all add: print_def)

lemma LogHandler_output:
  "LogHandler now grp catg msg t =
     t\<lparr>stdout := stdout t @
         (case filter (\<lambda>l. l \<noteq> []) (split newline msg) of
            [] \<Rightarrow> []
          | first # rest \<Rightarrow>
              (now @ '' [LOG] '' @ first) # map (\<lambda>line. replicate 33 CHR '' '' @ line) rest)\<rparr>"
  by (simp add: LogHandler_def Let_def foldl_print split: list.splits) (simp add: print_def)

text \<open>
  C9. \<open>LogHandler\<close> prints one line for each non-empty line of the message and nothing
  else: the first with the timestamp, the others behind 33 spaces. A message that is
  empty or made of newlines only changes nothing, and a blank line inside the message,
  at its start or at its end makes no difference to what is printed.
\<close>

theorem LogHandler_discards_empty_lines:
  "LogHandler now grp catg msg t =
     t\<lparr>stdout := stdout t @
         (case filter (\<lambda>l. l \<noteq> []) (split newline msg) of
            [] \<Rightarrow> []
          | first # rest \<Rightarrow>
              (now @ '' [LOG] '' @ first) # map (\<lambda>line. replicate 33 CHR '' '' @ line) rest)\<rparr>
   \<and> ((\<forall>ch \<in> set msg. ch = newline) \<longrightarrow> LogHandler now grp catg msg t = t)
   \<and> LogHandler now grp catg (a @ newline # newline # b) t
       = LogHandler now grp catg (a @ newline # b) t
   \<and> LogHandler now grp catg (newline # b) t = LogHandler now grp catg b t
   \<and> LogHandler now grp catg (a @ [newline]) t = LogHandler now grp catg a t"
proof (intro conjI impI)
  show "LogHandler now grp catg msg t =
     t\<lparr>stdout := stdout t @
         (case filter (\<lambda>l. l \<noteq> []) (split newline msg) of
            [] \<Rightarrow> []
          | first # rest \<Rightarrow>
              (now @ '' [LOG] '' @ first) # map (\<lambda>line. replicate 33 CHR '' '' @ line) rest)\<rparr>"
    by (rule LogHandler_output)
next
  assume "\<forall>ch \<in> set msg. ch = newline"
  then have "filter (\<lambda>l. length l > 0) (split newline msg) = []" by (rule split_only_sep)
  then show "LogHandler now grp catg msg t = t" by (simp add: LogHandler_def)
next
  have "filter (\<lambda>l. length l > 0) (split newline (a @ newline # newline # b))
      = filter (\<lambda>l. length l > 0) (split newline (a @ newline # b))"
    by (simp add: split_append_sep)
  then show "LogHandler now grp catg (a @ newline # newline # b) t
      = LogHandler now grp catg (a @ newline # b) t"
    by (simp only: LogHandler_def)
next
  show "LogHandler now grp catg (newline # b) t = LogHandler now grp catg b t"
    by (simp add: LogHandler_def)
next
  have "filter (\<lambda>l. length l > 0) (split newline (a @ [newline]))
      = filter (\<lambda>l. length l > 0) (split newline a)"
    by (simp add: split_append_sep)
  then show "LogHandler now grp catg (a @ [newline]) t = LogHandler now grp catg a t"
    by (simp only: LogHandler_def)
qed

text \<open>A message of two newlines, and the message "one", blank line, "two".\<close>

theorem LogHandler_discards_empty_lines_witness:
  "list_all (\<lambda>ch. ch = newline) [newline, newline]
   \<and> LogHandler ''2025-01-01 00:00:00.000000'' 0 0 [newline, newline]
        \<lparr>stdout = [], mainloop_running = True\<rparr>
       = \<lparr>stdout = [], mainloop_running = True\<rparr>
   \<and> LogHandler ''2025-01-01 00:00:00.000000'' 0 0 (''one'' @ newline # newline # ''two'')
        \<lparr>stdout = [], mainloop_running = True\<rparr>
       = \<lparr>stdout = [''2025-01-01 00:00:00.000000 [LOG] one'', replicate 33 CHR '' '' @ ''two''],
          mainloop_running = True\<rparr>"
  using LogHandler_discards_empty_lines
          [of "''2025-01-01 00:00:00.000000''" 0 0 "[newline, newline]"
              "\<lparr>stdout = [], mainloop_running = True\<rparr>" "''one''" "''two''"]
  by (simp add: LogHandler_def print_def newline_def)

section \<open>The registry of the SessionManagerWatcher\<close>

lemma Register_sessions:
  "sessions (Register Retrieve p self) = AList.update p (length (objects self)) (sessions self)"
  by (simp add: Register_def Let_def)

lemma Register_objects:
  "objects (Register Retrieve p self) = objects self @ [SessionWatcher_init (Retrieve p)]"
  by (simp add: Register_def Let_def)

lemma Register_notify: "notify (Register Retrieve p self) = notify self"
  by (simp add: Register_def Let_def)

lemma update_present_keys:
  "map_of al k \<noteq> None \<Longrightarrow> map fst (AList.update k v al) = map fst al"
  by (simp add: update_keys map_of_eq_None_iff)

text \<open>
  C5. A manager event whose owner is neither \<open>os.getuid()\<close> nor 0 changes nothing:
  the registry, the watcher objects and the notification sink are as before, whatever
  the event's type and path.
\<close>

theorem foreign_owner_event_ignored:
  assumes "event_owner event \<noteq> getuid" and "event_owner event \<noteq> 0"
  shows "mgr_event_handler getuid Retrieve event self = self"
  using assms by (simp add: mgr_event_handler_def)

text \<open>User 1000 tracks session /s/1; user 1001's session with that path is destroyed.\<close>

theorem foreign_owner_event_ignored_witness:
  "(1001::nat) \<noteq> 1000 \<and> (1001::nat) \<noteq> 0
   \<and> mgr_event_handler 1000
        (\<lambda>p. \<lparr>object_path = p, config_name = ''work-vpn'', status_callback = None\<rparr>)
        \<lparr>event_owner = 1001, event_type = SESS_DESTROYED, event_path = ''/s/1''\<rparr>
        (Register (\<lambda>p. \<lparr>object_path = p, config_name = ''work-vpn'', status_callback = None\<rparr>)
           ''/s/1'' (SessionManagerWatcher_init \<lparr>calls = [], next_id = 1\<rparr>))
      = Register (\<lambda>p. \<lparr>object_path = p, config_name = ''work-vpn'', status_callback = None\<rparr>)
           ''/s/1'' (SessionManagerWatcher_init \<lparr>calls = [], next_id = 1\<rparr>)"
  using foreign_owner_event_ignored
     [of "\<lparr>event_owner = 1001, event_type = SESS_DESTROYED, event_path = ''/s/1''\<rparr>" 1000
      "\<lambda>p. \<lparr>object_path = p, config_name = ''work-vpn'', status_callback = None\<rparr>"
      "Register (\<lambda>p. \<lparr>object_path = p, config_name = ''work-vpn'', status_callback = None\<rparr>)
           ''/s/1'' (SessionManagerWatcher_init \<lparr>calls = [], next_id = 1\<rparr>)"]
  by simp

subsection \<open>Keys stay distinct\<close>

lemma handler_keys_distinct:
  "distinct (map fst (sessions self))
     \<Longrightarrow> distinct (map fst (sessions (mgr_event_handler getuid Retrieve event self)))"
  by (auto simp: mgr_event_handler_def Register_sessions distinct_update distinct_delete Let_def
      split: option.splits prod.splits)

lemma step_keys_distinct:
  "distinct (map fst (sessions self))
     \<Longrightarrow> distinct (map fst (sessions (step getuid Retrieve a self)))"
  by (cases a) (simp_all add: Register_sessions distinct_update handler_keys_distinct)

lemma run_keys_distinct:
  "distinct (map fst (sessions self))
     \<Longrightarrow> distinct (map fst (sessions (run getuid Retrieve acts self)))"
  by (induction acts arbitrary: self) (simp_all add: step_keys_distinct)

text \<open>
  C6. After any sequence of \<open>Register\<close> calls and manager events, starting from the
  empty registry, no session path is a key of the registry twice. \<open>Register\<close> for a
  path that is already a key leaves the list of keys as it is and makes the path
  refer to the watcher it has just constructed.
\<close>

theorem registry_keys_distinct:
  "distinct (map fst (sessions (run getuid Retrieve acts (SessionManagerWatcher_init svc))))
   \<and> (map_of (sessions self) p \<noteq> None \<longrightarrow>
        map fst (sessions (Register Retrieve p self)) = map fst (sessions self)
        \<and> map_of (sessions (Register Retrieve p self)) p = Some (length (objects self))
        \<and> deref (objects (Register Retrieve p self)) (length (objects self))
            = Some (SessionWatcher_init (Retrieve p)))"
  by (simp add: run_keys_distinct SessionManagerWatcher_init_def Register_sessions Register_objects
       update_present_keys update_conv deref_def)

text \<open>Session /s/1 registered twice and then announced once more by the manager.\<close>

theorem registry_keys_distinct_witness:
  "distinct (map fst (sessions (run 1000
        (\<lambda>p. \<lparr>object_path = p, config_name = ''work-vpn'', status_callback = None\<rparr>)
        [CallRegister ''/s/1'', CallRegister ''/s/1'',
         ManagerEvent \<lparr>event_owner = 0, event_type = SESS_CREATED, event_path = ''/s/1''\<rparr>]
        (SessionManagerWatcher_init \<lparr>calls = [], next_id = 1\<rparr>))))
   \<and> map_of (sessions (Register
         (\<lambda>p. \<lparr>object_path = p, config_name = ''work-vpn'', status_callback = None\<rparr>)
         ''/s/1'' (SessionManagerWatcher_init \<lparr>calls = [], next_id = 1\<rparr>))) ''/s/1'' \<noteq> None
   \<and> sessions (Register
         (\<lambda>p. \<lparr>object_path = p, config_name = ''work-vpn'', status_callback = None\<rparr>) ''/s/1''
        (Register (\<lambda>p. \<lparr>object_path = p, config_name = ''work-vpn'', status_callback = None\<rparr>)
         ''/s/1'' (SessionManagerWatcher_init \<lparr>calls = [], next_id = 1\<rparr>))) = [(''/s/1'', 1)]"
  using registry_keys_distinct
     [of 1000 "\<lambda>p. \<lparr>object_path = p, config_name = ''work-vpn'', status_callback = None\<rparr>"
      "[CallRegister ''/s/1'', CallRegister ''/s/1'',
         ManagerEvent \<lparr>event_owner = 0, event_type = SESS_CREATED, event_path = ''/s/1''\<rparr>]"
      "\<lparr>calls = [], next_id = 1\<rparr>"
      "Register (\<lambda>p. \<lparr>object_path = p, config_name = ''work-vpn'', status_callback = None\<rparr>)
         ''/s/1'' (SessionManagerWatcher_init \<lparr>calls = [], next_id = 1\<rparr>)" "''/s/1''"]
  by (simp add: Register_def SessionManagerWatcher_init_def)

subsection \<open>References in the registry denote objects\<close>

lemma update_all:
  "list_all P al \<Longrightarrow> P (k, v) \<Longrightarrow> list_all P (AList.update k v al)"
  by (induction al) auto

lemma delete_all: "list_all P al \<Longrightarrow> list_all P (AList.delete k al)"
  by (induction al) auto

lemma Register_refs_valid: "refs_valid self \<Longrightarrow> refs_valid (Register Retrieve p self)"
  unfolding refs_valid_def Register_sessions Register_objects
  by (rule update_all) (auto simp: list_all_iff)

lemma pop_refs_valid:
  "refs_valid self \<Longrightarrow>
     refs_valid (self\<lparr>notify := n1, objects := (objects self)[r := w1],
                       sessions := AList.delete k (sessions self)\<rparr>)"
  by (simp add: refs_valid_def delete_all)

lemma handler_refs_valid:
  "refs_valid self \<Longrightarrow> refs_valid (mgr_event_handler getuid Retrieve event self)"
  by (auto simp: mgr_event_handler_def Register_refs_valid pop_refs_valid Let_def
      split: option.splits prod.splits)

lemma run_refs_valid:
  "refs_valid self \<Longrightarrow> refs_valid (run getuid Retrieve acts self)"
proof (induction acts arbitrary: self)
  case Nil
  then show ?case by simp
next
  case (Cons a acts)
  have "refs_valid (step getuid Retrieve a self)"
    using Cons.prems by (cases a) (simp_all add: Register_refs_valid handler_refs_valid)
  then show ?case using Cons.IH by simp
qed

text \<open>
  So the branch of \<open>mgr_event_handler\<close> for a reference without an object is never taken
  in a run that starts from the empty registry.
\<close>

lemma registry_refs_denote_objects:
  assumes "map_of (sessions (run getuid Retrieve acts (SessionManagerWatcher_init svc))) p = Some r"
  shows "deref (objects (run getuid Retrieve acts (SessionManagerWatcher_init svc))) r \<noteq> None"
proof -
  have "refs_valid (run getuid Retrieve acts (SessionManagerWatcher_init svc))"
    by (rule run_refs_valid) (simp add: refs_valid_def SessionManagerWatcher_init_def)
  moreover have "(p, r) \<in> set (sessions (run getuid Retrieve acts (SessionManagerWatcher_init svc)))"
    using assms by (rule map_of_SomeD)
  ultimately show ?thesis by (auto simp: refs_valid_def list_all_iff deref_def)
qed

subsection \<open>Registering a path again\<close>

text \<open>
  C10. When \<open>Register\<close> is called for a path that the registry already maps to a watcher
  \<open>old\<close>, \<open>Stop()\<close> is not run on \<open>old\<close>: the object is still in the store exactly as it
  was, so the handler attached through its session is still attached, and the
  notification sink, with the calls made on the service and the stored auth entry, is
  untouched. No watcher that existed before changes, the registry keeps its keys and
  its entries for all other paths, and the entry for the path now refers to the newly
  constructed watcher instead of \<open>old\<close>.
\<close>

theorem Register_replaces_without_Stop:
  assumes "map_of (sessions self) p = Some r" and "deref (objects self) r = Some old"
  shows "notify (Register Retrieve p self) = notify self
     \<and> deref (objects (Register Retrieve p self)) r = Some old
     \<and> take (length (objects self)) (objects (Register Retrieve p self)) = objects self
     \<and> objects (Register Retrieve p self) = objects self @ [SessionWatcher_init (Retrieve p)]
     \<and> map fst (sessions (Register Retrieve p self)) = map fst (sessions self)
     \<and> (\<forall>q. q \<noteq> p \<longrightarrow> map_of (sessions (Register Retrieve p self)) q = map_of (sessions self) q)
     \<and> map_of (sessions (Register Retrieve p self)) p = Some (length (objects self))
     \<and> r \<noteq> length (objects self)"
  using assms
  by (auto simp: Register_notify Register_objects Register_sessions deref_def nth_append
        update_present_keys update_conv split: if_splits)

text \<open>Session /s/1 registered, then registered again.\<close>

theorem Register_replaces_without_Stop_witness:
  "map_of (sessions (Register
         (\<lambda>p. \<lparr>object_path = p, config_name = ''work-vpn'', status_callback = None\<rparr>)
         ''/s/1'' (SessionManagerWatcher_init \<lparr>calls = [], next_id = 1\<rparr>))) ''/s/1'' = Some 0
   \<and> deref (objects (Register
         (\<lambda>p. \<lparr>object_path = p, config_name = ''work-vpn'', status_callback = None\<rparr>)
         ''/s/1'' (SessionManagerWatcher_init \<lparr>calls = [], next_id = 1\<rparr>))) 0
       = Some \<lparr>session = \<lparr>object_path = ''/s/1'', config_name = ''work-vpn'',
                            status_callback = Some WatcherStatusChgHandler\<rparr>,
               reconnecting = False, path = ''/s/1'', cfgname = ''work-vpn''\<rparr>
   \<and> deref (objects (Register
         (\<lambda>p. \<lparr>object_path = p, config_name = ''work-vpn'', status_callback = None\<rparr>) ''/s/1''
        (Register (\<lambda>p. \<lparr>object_path = p, config_name = ''work-vpn'', status_callback = None\<rparr>)
         ''/s/1'' (SessionManagerWatcher_init \<lparr>calls = [], next_id = 1\<rparr>)))) 0
       = Some \<lparr>session = \<lparr>object_path = ''/s/1'', config_name = ''work-vpn'',
                            status_callback = Some WatcherStatusChgHandler\<rparr>,
               reconnecting = False, path = ''/s/1'', cfgname = ''work-vpn''\<rparr>
   \<and> notify (Register
         (\<lambda>p. \<lparr>object_path = p, config_name = ''work-vpn'', status_callback = None\<rparr>) ''/s/1''
        (Register (\<lambda>p. \<lparr>object_path = p, config_name = ''work-vpn'', status_callback = None\<rparr>)
         ''/s/1'' (SessionManagerWatcher_init \<lparr>calls = [], next_id = 1\<rparr>)))
       = Notify_init \<lparr>calls = [], next_id = 1\<rparr>
   \<and> sessions (Register
         (\<lambda>p. \<lparr>object_path = p, config_name = ''work-vpn'', status_callback = None\<rparr>) ''/s/1''
        (Register (\<lambda>p. \<lparr>object_path = p, config_name = ''work-vpn'', status_callback = None\<rparr>)
         ''/s/1'' (SessionManagerWatcher_init \<lparr>calls = [], next_id = 1\<rparr>))) = [(''/s/1'', 1)]"
  using Register_replaces_without_Stop
     [of "Register (\<lambda>p. \<lparr>object_path = p, config_name = ''work-vpn'', status_callback = None\<rparr>)
         ''/s/1'' (SessionManagerWatcher_init \<lparr>calls = [], next_id = 1\<rparr>)" "''/s/1''" 0
       "\<lparr>session = \<lparr>object_path = ''/s/1'', config_name = ''work-vpn'',
                            status_callback = Some WatcherStatusChgHandler\<rparr>,
               reconnecting = False, path = ''/s/1'', cfgname = ''work-vpn''\<rparr>"
       "\<lambda>p. \<lparr>object_path = p, config_name = ''work-vpn'', status_callback = None\<rparr>"]
  by (simp add: Register_def SessionManagerWatcher_init_def deref_def SessionWatcher_init_def
        GetPath_def GetProperty_config_name_def StatusChangeCallback_def)

end
